theory Spec2Isabelle
  imports Main "HOL-Library.Word"
begin

section \<open>The MJC3 joystick MEX interface\<close>

text \<open>
  A shallow embedding of \<^verbatim>\<open>src/controllers/mjc3/mjc3_joystick_mex.cpp\<close>. The file has two
  globals (\<^verbatim>\<open>g_device\<close>, \<^verbatim>\<open>g_initialized\<close>), four helper functions and the entry
  point \<^verbatim>\<open>mexFunction\<close>. Everything it calls outside itself is the hidapi library, three
  functions of the MEX API and \<^verbatim>\<open>strcmp\<close>. The hidapi answers of one invocation are a
  parameter of the model (a record of functions); every call the program makes to the
  outside is written to a log, so that theorems can speak about which handle was read or
  closed and with which timeout.
\<close>

subsection \<open>Constants\<close>

type_synonym u8 = "8 word"

definition MJC3_VID :: "16 word" where
  "MJC3_VID = 0x1313"

definition MJC3_PID :: "16 word" where
  "MJC3_PID = 0x9000"

definition REPORT_SIZE :: nat where
  "REPORT_SIZE = 5"

subsection \<open>The HID transport and the process state\<close>

text \<open>
  A \<^verbatim>\<open>hid_device*\<close> is \<open>None\<close> when it is the null pointer and \<open>Some d\<close> otherwise.
  hidapi's contract, as its header documents it: \<^verbatim>\<open>hid_init\<close> returns 0 on success and -1
  on error; \<^verbatim>\<open>hid_open\<close> returns a handle or null; \<^verbatim>\<open>hid_read_timeout\<close> returns the
  number of bytes it wrote to the buffer (at most the length it was given), 0 when no
  report arrived within the timeout and -1 on error; \<^verbatim>\<open>hid_error\<close> returns a string or
  null; the three descriptor queries return 0 on success and -1 on error. The model does not
  assume this contract: each answer is whatever the record holds, and the read's return
  value and the bytes it delivered are independent components.
\<close>

type_synonym hid_device = nat

record hid_transport =
  hid_init :: int
  hid_open :: "16 word \<Rightarrow> 16 word \<Rightarrow> hid_device option"
  hid_read_timeout :: "hid_device option \<Rightarrow> nat \<Rightarrow> int \<Rightarrow> int \<times> u8 list"
  hid_error :: "hid_device option \<Rightarrow> bool"
  hid_get_manufacturer_string :: "hid_device option \<Rightarrow> int"
  hid_get_product_string :: "hid_device option \<Rightarrow> int"
  hid_get_serial_number_string :: "hid_device option \<Rightarrow> int"

datatype api_call =
    MexAtExit
  | MexWarn string string
  | HidInit
  | HidExit
  | HidOpen "16 word" "16 word"
  | HidClose hid_device
  | HidSetNonblocking hid_device int
  | HidReadTimeout "hid_device option" nat int
  | HidError "hid_device option"
  | HidGetManufacturerString "hid_device option"
  | HidGetProductString "hid_device option"
  | HidGetSerialNumberString "hid_device option"

text \<open>
  The two globals, and the log of outside calls made so far (oldest first).
\<close>

record mex_state =
  g_device :: "hid_device option"
  g_initialized :: bool
  effects :: "api_call list"

definition initial_state :: mex_state where
  "initial_state = \<lparr>g_device = None, g_initialized = False, effects = []\<rparr>"

definition emit :: "api_call \<Rightarrow> mex_state \<Rightarrow> mex_state" where
  "emit c s = s\<lparr>effects := effects s @ [c]\<rparr>"

subsection \<open>The values of the host\<close>

text \<open>
  An \<^verbatim>\<open>mxArray\<close>. Every double the program produces is an integer, so doubles are
  \<open>int\<close>; a double matrix carries its two dimensions and its elements. A struct is the
  list of its fields in declaration order, each with its value or \<open>None\<close> while unset
  (\<^verbatim>\<open>mxCreateStructMatrix\<close> creates every field unset, which the host shows as an empty
  matrix). The text of a char array is its characters in the order \<^verbatim>\<open>mxGetString\<close>
  copies them.
\<close>

datatype mx_array =
    MxLogicalScalar bool
  | MxDoubleScalar int
  | MxDoubleMatrix nat nat "int list"
  | MxString string
  | MxStruct "(string \<times> mx_array option) list"

datatype mex_error = MexError string string

fun mxIsChar :: "mx_array \<Rightarrow> bool" where
  "mxIsChar (MxString _) = True"
| "mxIsChar _ = False"

fun mxIsNumeric :: "mx_array \<Rightarrow> bool" where
  "mxIsNumeric (MxDoubleScalar _) = True"
| "mxIsNumeric (MxDoubleMatrix _ _ _) = True"
| "mxIsNumeric _ = False"

text \<open>
  \<^verbatim>\<open>(int)mxGetScalar(p)\<close>: the first element. On an empty array the MEX API leaves the
  value indeterminate, as \<open>hd []\<close> is here. The program calls it on numeric arrays only.
\<close>

fun mxGetScalar :: "mx_array \<Rightarrow> int" where
  "mxGetScalar (MxDoubleScalar v) = v"
| "mxGetScalar (MxDoubleMatrix _ _ vs) = hd vs"
| "mxGetScalar (MxLogicalScalar b) = (if b then 1 else 0)"
| "mxGetScalar _ = hd []"

text \<open>
  \<^verbatim>\<open>mxGetString(p, buf, buflen)\<close> copies at most \<open>buflen - 1\<close> characters and terminates
  them with NUL. The program ignores its return value.
\<close>

definition NUL :: char where
  "NUL = CHR 0x00"

fun mxGetString :: "mx_array \<Rightarrow> nat \<Rightarrow> string" where
  "mxGetString (MxString cs) buflen = take (buflen - 1) cs @ [NUL]"
| "mxGetString _ buflen = [NUL]"

text \<open>
  \<^verbatim>\<open>strcmp\<close> on character buffers: it stops at the first NUL of either argument (the end
  of the list stands for the terminator of a string literal) and compares the characters
  as unsigned bytes.
\<close>

fun strcmp :: "string \<Rightarrow> string \<Rightarrow> int" where
  "strcmp [] [] = 0"
| "strcmp [] (b # bs) = (if b = NUL then 0 else - 1)"
| "strcmp (a # as) [] = (if a = NUL then 0 else 1)"
| "strcmp (a # as) (b # bs) =
     (if a = NUL \<and> b = NUL then 0
      else if a = b then strcmp as bs
      else if (of_char a :: nat) < of_char b then - 1 else 1)"

definition mxCreateStructMatrix :: "string list \<Rightarrow> (string \<times> mx_array option) list" where
  "mxCreateStructMatrix field_names = map (\<lambda>n. (n, None)) field_names"

definition mxSetField ::
  "(string \<times> mx_array option) list \<Rightarrow> string \<Rightarrow> mx_array \<Rightarrow> (string \<times> mx_array option) list" where
  "mxSetField fs name v = map (\<lambda>(n, x). if n = name then (n, Some v) else (n, x)) fs"

fun mxGetField :: "mx_array \<Rightarrow> string \<Rightarrow> mx_array option" where
  "mxGetField (MxStruct fs) name = (case map_of fs name of Some x \<Rightarrow> x | None \<Rightarrow> None)"
| "mxGetField _ name = None"

subsection \<open>initializeDevice and cleanupDevice\<close>

definition initializeDevice :: "hid_transport \<Rightarrow> mex_state \<Rightarrow> bool \<times> mex_state" where
  "initializeDevice hid s =
     (if g_initialized s \<and> g_device s \<noteq> None then (True, s)
      else
        let s1 = emit HidInit s in
        if hid_init hid \<noteq> 0 then
          (False, emit (MexWarn ''MJC3:InitFail'' ''Failed to initialize HID library'') s1)
        else
          let s2 = (emit (HidOpen MJC3_VID MJC3_PID) s1)
                     \<lparr>g_device := hid_open hid MJC3_VID MJC3_PID\<rparr>
          in case g_device s2 of
               None \<Rightarrow>
                 (False,
                  emit HidExit
                    (emit (MexWarn ''MJC3:OpenFail''
                             ''Cannot open MJC3 joystick (VID:1313, PID:9000)'') s2))
             | Some d \<Rightarrow>
                 (True, (emit (HidSetNonblocking d 1) s2)\<lparr>g_initialized := True\<rparr>))"

definition cleanupDevice :: "mex_state \<Rightarrow> mex_state" where
  "cleanupDevice s =
     (let s1 = (case g_device s of
                  Some d \<Rightarrow> (emit (HidClose d) s)\<lparr>g_device := None\<rparr>
                | None \<Rightarrow> s)
      in if g_initialized s1 then (emit HidExit s1)\<lparr>g_initialized := False\<rparr> else s1)"

subsection \<open>readJoystickData\<close>

text \<open>
  The transport writes the bytes it delivers, at most the length it was given, over the
  front of the caller's buffer; the rest of the buffer keeps its content.
\<close>

definition store_bytes :: "u8 list \<Rightarrow> u8 list \<Rightarrow> u8 list" where
  "store_bytes bytes buffer = take (length buffer) bytes @ drop (length bytes) buffer"

definition readJoystickData ::
  "hid_transport \<Rightarrow> u8 list \<Rightarrow> int \<Rightarrow> mex_state \<Rightarrow> bool \<times> u8 list \<times> mex_state" where
  "readJoystickData hid buffer timeout_ms s =
     (let (opened, s1) = (if g_device s = None then initializeDevice hid s else (True, s)) in
      if \<not> opened then (False, buffer, s1)
      else
        let (result, bytes) = hid_read_timeout hid (g_device s1) REPORT_SIZE timeout_ms;
            buffer' = store_bytes (take REPORT_SIZE bytes) buffer;
            s2 = emit (HidReadTimeout (g_device s1) REPORT_SIZE timeout_ms) s1
        in if result < 0 then
             (let s3 = emit (HidError (g_device s2)) s2 in
              (False, buffer',
               if hid_error hid (g_device s2)
               then emit (MexWarn ''MJC3:ReadError'' ''HID read error occurred'') s3
               else s3))
           else if result = 0 then (False, buffer', s2)
           else (True, buffer', s2))"

subsection \<open>getDeviceInfo\<close>

definition field_names :: "string list" where
  "field_names =
     [''connected'', ''vendor_id'', ''product_id'', ''manufacturer'', ''product'', ''serial_number'']"

definition getDeviceInfo :: "hid_transport \<Rightarrow> mex_state \<Rightarrow> mx_array \<times> mex_state" where
  "getDeviceInfo hid s =
     (let info = mxCreateStructMatrix field_names;
          (opened, s1) = (if g_device s = None then initializeDevice hid s else (True, s))
      in if \<not> opened then
           (MxStruct (mxSetField info ''connected'' (MxLogicalScalar False)), s1)
         else
           let info1 = mxSetField info ''connected'' (MxLogicalScalar True);
               info2 = mxSetField info1 ''vendor_id'' (MxDoubleScalar (uint MJC3_VID));
               info3 = mxSetField info2 ''product_id'' (MxDoubleScalar (uint MJC3_PID));
               s2 = emit (HidGetManufacturerString (g_device s1)) s1;
               info4 = (if hid_get_manufacturer_string hid (g_device s1) = 0
                        then mxSetField info3 ''manufacturer'' (MxString ''Thorlabs'')
                        else info3);
               s3 = emit (HidGetProductString (g_device s2)) s2;
               info5 = (if hid_get_product_string hid (g_device s2) = 0
                        then mxSetField info4 ''product'' (MxString ''MJC3 Joystick'')
                        else info4);
               s4 = emit (HidGetSerialNumberString (g_device s3)) s3;
               info6 = (if hid_get_serial_number_string hid (g_device s3) = 0
                        then mxSetField info5 ''serial_number'' (MxString ''Unknown'')
                        else info5)
           in (MxStruct info6, s4))"

subsection \<open>mexFunction\<close>

text \<open>
  Lines 213 to 216: the timeout of a read is the second argument when there is one and it
  is numeric, and 100 otherwise.
\<close>

definition read_timeout_ms :: "mx_array list \<Rightarrow> int" where
  "read_timeout_ms prhs =
     (if length prhs > 1 \<and> mxIsNumeric (prhs ! 1) then mxGetScalar (prhs ! 1) else 100)"

text \<open>
  Lines 226 to 230: the first three bytes through \<^verbatim>\<open>int8_t\<close>, the last two as they are.
\<close>

definition report_values :: "u8 list \<Rightarrow> int list" where
  "report_values buffer =
     [sint (buffer ! 0), sint (buffer ! 1), sint (buffer ! 2), uint (buffer ! 3), uint (buffer ! 4)]"

text \<open>
  \<^verbatim>\<open>mexErrMsgIdAndTxt\<close> does not return: the invocation ends with the error (\<open>Inl\<close>).
  Otherwise the result is \<^verbatim>\<open>plhs[0]\<close>, \<open>None\<close> when the program did not assign it.
  The last message ends with a single quote, written \<open>CHR 0x27\<close>.
\<close>

definition mexFunction ::
  "hid_transport \<Rightarrow> nat \<Rightarrow> mx_array list \<Rightarrow> mex_state \<Rightarrow> (mex_error + mx_array option) \<times> mex_state" where
  "mexFunction hid nlhs prhs s =
     (let s0 = emit MexAtExit s in
      if length prhs < 1 then
        (Inl (MexError ''MJC3:InvalidInput'' ''At least one input argument required''), s0)
      else if \<not> mxIsChar (prhs ! 0) then
        (Inl (MexError ''MJC3:InvalidInput'' ''First argument must be a command string''), s0)
      else
        let command = mxGetString (prhs ! 0) 64 in
        if strcmp command ''read'' = 0 then
          (let timeout_ms = read_timeout_ms prhs;
               buffer = replicate REPORT_SIZE 0;
               (ok, buffer', s1) = readJoystickData hid buffer timeout_ms s0
           in if ok then (Inr (Some (MxDoubleMatrix 1 5 (report_values buffer'))), s1)
              else (Inr (Some (MxDoubleMatrix 0 0 [])), s1))
        else if strcmp command ''info'' = 0 then
          (let (info, s1) = getDeviceInfo hid s0 in (Inr (Some info), s1))
        else if strcmp command ''test'' = 0 then
          (Inr (Some (MxLogicalScalar True)), s0)
        else if strcmp command ''close'' = 0 then
          (let s1 = cleanupDevice s0
           in (Inr (if nlhs > 0 then Some (MxLogicalScalar True) else None), s1))
        else
          (Inl (MexError ''MJC3:InvalidCommand''
                  (''Unknown command. Valid commands: 'read', 'info', 'test', 'close''
                   @ [CHR 0x27])), s0))"

subsection \<open>Notions the properties are stated with\<close>

text \<open>
  The text \<^verbatim>\<open>strcmp\<close> sees in a buffer: the characters before the first NUL.
\<close>

definition c_str :: "string \<Rightarrow> string" where
  "c_str cs = takeWhile (\<lambda>c. c \<noteq> NUL) cs"

definition commands :: "string set" where
  "commands = {''read'', ''info'', ''test'', ''close''}"

text \<open>
  The device is available as \<open>d\<close>: the session already holds the handle \<open>d\<close>, or it
  holds none and the transport initialises and opens the device as \<open>d\<close>. The device is
  unavailable when the session holds no handle and the transport fails to initialise or to
  open.
\<close>

definition available :: "hid_transport \<Rightarrow> mex_state \<Rightarrow> hid_device \<Rightarrow> bool" where
  "available hid s d =
     (g_device s = Some d \<or>
      (g_device s = None \<and> hid_init hid = 0 \<and> hid_open hid MJC3_VID MJC3_PID = Some d))"

definition unavailable :: "hid_transport \<Rightarrow> mex_state \<Rightarrow> bool" where
  "unavailable hid s =
     (g_device s = None \<and> (hid_init hid \<noteq> 0 \<or> hid_open hid MJC3_VID MJC3_PID = None))"

definition closed :: "mex_state \<Rightarrow> bool" where
  "closed s = (g_device s = None \<and> \<not> g_initialized s)"

definition session_inv :: "mex_state \<Rightarrow> bool" where
  "session_inv s = (g_initialized s = (g_device s \<noteq> None))"

text \<open>
  The host invoking the MEX function again and again, each time with the transport's
  answers of that invocation, the number of results it asks for and its arguments. An
  invocation that ends with an error leaves the process, and so the globals, alive.
\<close>

fun invocations :: "(hid_transport \<times> nat \<times> mx_array list) list \<Rightarrow> mex_state \<Rightarrow> mex_state" where
  "invocations [] s = s"
| "invocations ((hid, nlhs, prhs) # rest) s = invocations rest (snd (mexFunction hid nlhs prhs s))"

text \<open>
  A transport for concrete runs: the result of \<^verbatim>\<open>hid_init\<close>, the handle \<^verbatim>\<open>hid_open\<close>
  returns, the answer of every read, and the result of every descriptor query.
\<close>

definition sample_transport ::
  "int \<Rightarrow> hid_device option \<Rightarrow> int \<times> u8 list \<Rightarrow> int \<Rightarrow> hid_transport" where
  "sample_transport init dev rd q =
     \<lparr>hid_init = init,
      hid_open = (\<lambda>vid pid. dev),
      hid_read_timeout = (\<lambda>d len timeout_ms. rd),
      hid_error = (\<lambda>d. True),
      hid_get_manufacturer_string = (\<lambda>d. q),
      hid_get_product_string = (\<lambda>d. q),
      hid_get_serial_number_string = (\<lambda>d. q)\<rparr>"

section \<open>Properties\<close>

subsection \<open>Command strings\<close>

lemma strcmp_0_iff: "strcmp a b = 0 \<longleftrightarrow> c_str a = c_str b"
  by (induction a b rule: strcmp.induct) (auto simp: c_str_def)

lemma c_str_take: "c_str (take n cs) = take n (c_str cs)"
  unfolding c_str_def
proof (induction cs arbitrary: n)
  case Nil
  show ?case by simp
next
  case (Cons c cs)
  show ?case by (cases n) (simp_all add: Cons.IH)
qed

lemma c_str_NUL_end: "c_str (cs @ [NUL]) = c_str cs"
  by (induction cs) (simp_all add: c_str_def)

lemma c_str_no_NUL: "NUL \<notin> set cs \<Longrightarrow> c_str cs = cs"
  by (auto simp: c_str_def)

text \<open>
  A literal shorter than the buffer matches the copied command exactly when it is the text
  of the argument before its first NUL: the truncation to 63 characters never matters.
\<close>

lemma command_is:
  assumes "length lit < 63" and "NUL \<notin> set lit"
  shows "strcmp (mxGetString (MxString cs) 64) lit = 0 \<longleftrightarrow> c_str cs = lit"
proof -
  have lit: "c_str lit = lit"
    using assms(2) by (rule c_str_no_NUL)
  have "strcmp (mxGetString (MxString cs) 64) lit = 0 \<longleftrightarrow> take 63 (c_str cs) = lit"
    by (simp add: strcmp_0_iff c_str_NUL_end c_str_take lit)
  also have "\<dots> \<longleftrightarrow> c_str cs = lit"
  proof
    assume h: "take 63 (c_str cs) = lit"
    then have "length (take 63 (c_str cs)) < 63"
      using assms(1) by simp
    then have "length (c_str cs) < 63"
      by simp
    then show "c_str cs = lit"
      using h by simp
  next
    assume "c_str cs = lit"
    then show "take 63 (c_str cs) = lit"
      using assms(1) by simp
  qed
  finally show ?thesis .
qed

lemma is_read: "strcmp (mxGetString (MxString cs) 64) ''read'' = 0 \<longleftrightarrow> c_str cs = ''read''"
  by (rule command_is) (simp_all add: NUL_def)

lemma is_info: "strcmp (mxGetString (MxString cs) 64) ''info'' = 0 \<longleftrightarrow> c_str cs = ''info''"
  by (rule command_is) (simp_all add: NUL_def)

lemma is_test: "strcmp (mxGetString (MxString cs) 64) ''test'' = 0 \<longleftrightarrow> c_str cs = ''test''"
  by (rule command_is) (simp_all add: NUL_def)

lemma is_close: "strcmp (mxGetString (MxString cs) 64) ''close'' = 0 \<longleftrightarrow> c_str cs = ''close''"
  by (rule command_is) (simp_all add: NUL_def)

lemmas is_command = is_read is_info is_test is_close

lemma c_str_literals:
  "c_str ''read'' = ''read''" "c_str ''info'' = ''info''"
  "c_str ''test'' = ''test''" "c_str ''close'' = ''close''"
  by (simp_all add: c_str_def NUL_def)

subsection \<open>Opening on demand and polling\<close>

lemma ensure_open:
  assumes "available hid s d"
  shows "\<exists>s1. (if g_device s = None then initializeDevice hid s else (True, s)) = (True, s1)
           \<and> g_device s1 = Some d
           \<and> (g_device s = Some d \<longrightarrow> s1 = s)
           \<and> (\<exists>es. effects s1 = effects s @ es \<and> HidClose d \<notin> set es \<and> HidExit \<notin> set es)"
  using assms
  by (auto simp: available_def initializeDevice_def emit_def Let_def)

lemma ensure_open_fails:
  assumes "unavailable hid s"
  shows "g_device s = None" and "\<not> fst (initializeDevice hid s)"
  using assms
  by (auto simp: unavailable_def initializeDevice_def emit_def Let_def split: option.splits)

lemma poll_result:
  assumes "available hid s d"
    and "hid_read_timeout hid (Some d) REPORT_SIZE t = (r, bytes)"
  shows "fst (readJoystickData hid buffer t s) = (0 < r)"
    and "fst (snd (readJoystickData hid buffer t s)) = store_bytes (take REPORT_SIZE bytes) buffer"
    and "g_device (snd (snd (readJoystickData hid buffer t s))) = Some d"
proof -
  obtain s1 where s1:
    "(if g_device s = None then initializeDevice hid s else (True, s)) = (True, s1)"
    "g_device s1 = Some d"
    using ensure_open [OF assms(1)] by blast
  show "fst (readJoystickData hid buffer t s) = (0 < r)"
    using s1 assms(2) by (auto simp: readJoystickData_def Let_def emit_def)
  show "fst (snd (readJoystickData hid buffer t s)) = store_bytes (take REPORT_SIZE bytes) buffer"
    using s1 assms(2) by (auto simp: readJoystickData_def Let_def emit_def)
  show "g_device (snd (snd (readJoystickData hid buffer t s))) = Some d"
    using s1 assms(2) by (auto simp: readJoystickData_def Let_def emit_def)
qed

lemma poll_unavailable:
  assumes "unavailable hid s"
  shows "\<not> fst (readJoystickData hid buffer t s)"
  using ensure_open_fails [OF assms]
  by (cases "initializeDevice hid s") (simp add: readJoystickData_def)

lemma available_emit: "available hid (emit c s) d = available hid s d"
  by (simp add: available_def emit_def)

lemma unavailable_emit: "unavailable hid (emit c s) = unavailable hid s"
  by (simp add: unavailable_def emit_def)

text \<open>
  What the read command returns, in terms of the one poll it makes.
\<close>

lemma read_command:
  assumes "c_str cs = ''read''"
  shows "fst (mexFunction hid nlhs (MxString cs # rest) s) =
           (let r = readJoystickData hid (replicate REPORT_SIZE 0)
                      (read_timeout_ms (MxString cs # rest)) (emit MexAtExit s)
            in Inr (Some (if fst r then MxDoubleMatrix 1 5 (report_values (fst (snd r)))
                          else MxDoubleMatrix 0 0 [])))"
  using assms
  by (simp add: mexFunction_def is_read Let_def split: prod.splits del: mxGetString.simps)

subsection \<open>The result of the transport read\<close>

text \<open>
  C1, as the program has it. A read makes one poll. When the device is available and the
  transport read returns \<open>r\<close>: for \<open>r \<le> 0\<close> the command returns the empty 0-by-0 matrix;
  for every \<open>r > 0\<close>, also 1 to 4, it returns the five values decoded from the buffer,
  which is the zero-initialised buffer with the delivered bytes written over its front.
  The program never compares \<open>r\<close> with the report size.
\<close>

theorem read_result_classification:
  assumes "available hid s d"
    and "hid_read_timeout hid (Some d) REPORT_SIZE (read_timeout_ms (MxString ''read'' # rest))
           = (r, bytes)"
  shows "fst (mexFunction hid nlhs (MxString ''read'' # rest) s) =
           Inr (Some (if 0 < r
                      then MxDoubleMatrix 1 5
                             (report_values
                                (store_bytes (take REPORT_SIZE bytes) (replicate REPORT_SIZE 0)))
                      else MxDoubleMatrix 0 0 []))"
proof -
  have a: "available hid (emit MexAtExit s) d"
    using assms(1) by (simp add: available_emit)
  show ?thesis
    by (simp add: read_command c_str_literals Let_def poll_result [OF a assms(2)])
qed

theorem read_result_classification_witness:
  "fst (mexFunction (sample_transport 0 (Some 7) (3, [1, 2, 3]) 0) 1 [MxString ''read'']
          initial_state)
     = Inr (Some (MxDoubleMatrix 1 5 [1, 2, 3, 0, 0]))
   \<and> fst (mexFunction (sample_transport 0 (Some 7) (- 1, []) 0) 1 [MxString ''read'']
          initial_state)
     = Inr (Some (MxDoubleMatrix 0 0 []))"
proof -
  have a: "available (sample_transport 0 (Some 7) rd 0) initial_state 7" for rd
    by (simp add: available_def sample_transport_def initial_state_def)
  have r: "hid_read_timeout (sample_transport 0 (Some 7) rd 0) (Some 7) REPORT_SIZE
             (read_timeout_ms [MxString ''read'']) = (fst rd, snd rd)" for rd
    by (simp add: sample_transport_def)
  show ?thesis
    using read_result_classification [OF a r, of "(3, [1, 2, 3])" 1]
      read_result_classification [OF a r, of "(- 1, [])" 1]
    by (simp add: report_values_def store_bytes_def REPORT_SIZE_def)
qed

text \<open>
  C1 as the specification states it fails: a read that returns 3 bytes is classified as a
  success and the command returns a sample whose last two values are the buffer's initial
  zeros.
\<close>

theorem short_read_is_decoded:
  "fst (hid_read_timeout (sample_transport 0 (Some 7) (3, [1, 2, 3]) 0) (Some 7) REPORT_SIZE 100) = 3
   \<and> fst (readJoystickData (sample_transport 0 (Some 7) (3, [1, 2, 3]) 0)
            (replicate REPORT_SIZE 0) 100 initial_state)
   \<and> fst (mexFunction (sample_transport 0 (Some 7) (3, [1, 2, 3]) 0) 1 [MxString ''read'']
            initial_state)
       = Inr (Some (MxDoubleMatrix 1 5 [1, 2, 3, 0, 0]))"
  by (simp add: sample_transport_def initial_state_def mexFunction_def readJoystickData_def
      initializeDevice_def emit_def read_timeout_ms_def report_values_def store_bytes_def
      REPORT_SIZE_def NUL_def Let_def)

subsection \<open>Decoding\<close>

text \<open>
  A successful read of five delivered bytes returns bytes 0 to 2 read as two's complement
  and bytes 3 and 4 read as unsigned.
\<close>

lemma read_decodes_five_bytes:
  assumes "available hid s d"
    and "hid_read_timeout hid (Some d) REPORT_SIZE (read_timeout_ms (MxString ''read'' # rest))
           = (r, [b0, b1, b2, b3, b4])"
    and "0 < r"
  shows "fst (mexFunction hid nlhs (MxString ''read'' # rest) s) =
           Inr (Some (MxDoubleMatrix 1 5 [sint b0, sint b1, sint b2, uint b3, uint b4]))"
proof -
  have a: "available hid (emit MexAtExit s) d"
    using assms(1) by (simp add: available_emit)
  have "report_values (store_bytes (take REPORT_SIZE [b0, b1, b2, b3, b4])
          (replicate REPORT_SIZE 0)) = [sint b0, sint b1, sint b2, uint b3, uint b4]"
    by (simp add: report_values_def store_bytes_def REPORT_SIZE_def)
  then show ?thesis
    using assms(3)
    by (simp add: read_command c_str_literals Let_def poll_result [OF a assms(2)])
qed

text \<open>
  C2. When the device is available and the transport read delivers the five bytes
  0x81, 0x7F, 0x00, 0x01, 0xFF, the read command returns the row -127, 127, 0, 1, 255:
  bytes 0 to 2 as signed 8-bit integers, bytes 3 and 4 unsigned.
\<close>

theorem decode_example:
  assumes "available hid s d"
    and "hid_read_timeout hid (Some d) REPORT_SIZE (read_timeout_ms (MxString ''read'' # rest))
           = (5, [0x81, 0x7F, 0x00, 0x01, 0xFF])"
  shows "fst (mexFunction hid nlhs (MxString ''read'' # rest) s) =
           Inr (Some (MxDoubleMatrix 1 5 [- 127, 127, 0, 1, 255]))"
  using read_decodes_five_bytes [OF assms, of nlhs] by simp

theorem decode_example_witness:
  "fst (mexFunction (sample_transport 0 (Some 7) (5, [0x81, 0x7F, 0x00, 0x01, 0xFF]) 0) 1
          [MxString ''read'', MxDoubleScalar 20] initial_state)
     = Inr (Some (MxDoubleMatrix 1 5 [- 127, 127, 0, 1, 255]))"
proof -
  have a: "available (sample_transport 0 (Some 7) (5, [0x81, 0x7F, 0x00, 0x01, 0xFF]) 0)
             initial_state 7"
    by (simp add: available_def sample_transport_def initial_state_def)
  have r: "hid_read_timeout (sample_transport 0 (Some 7) (5, [0x81, 0x7F, 0x00, 0x01, 0xFF]) 0)
             (Some 7) REPORT_SIZE (read_timeout_ms (MxString ''read'' # [MxDoubleScalar 20]))
           = (5, [0x81, 0x7F, 0x00, 0x01, 0xFF])"
    by (simp add: sample_transport_def)
  show ?thesis
    by (rule decode_example [OF a r])
qed

subsection \<open>Timeout and transport error at the output boundary\<close>

text \<open>
  C5. A read whose poll fails returns the empty 0-by-0 matrix and raises no error, whatever
  the reason: the device is unavailable, the transport read timed out (0) or the transport
  read reported an error (a negative result). The three cases give the same result.
\<close>

theorem read_failure_is_empty:
  assumes "unavailable hid s \<or>
           (available hid s d \<and>
            fst (hid_read_timeout hid (Some d) REPORT_SIZE
                   (read_timeout_ms (MxString ''read'' # rest))) \<le> 0)"
  shows "fst (mexFunction hid nlhs (MxString ''read'' # rest) s) =
           Inr (Some (MxDoubleMatrix 0 0 []))"
  using assms
proof
  assume "unavailable hid s"
  then have "unavailable hid (emit MexAtExit s)"
    by (simp add: unavailable_emit)
  then show ?thesis
    by (simp add: read_command c_str_literals Let_def poll_unavailable)
next
  assume h: "available hid s d \<and>
             fst (hid_read_timeout hid (Some d) REPORT_SIZE
                    (read_timeout_ms (MxString ''read'' # rest))) \<le> 0"
  then have a: "available hid (emit MexAtExit s) d"
    by (simp add: available_emit)
  obtain r bytes where r:
    "hid_read_timeout hid (Some d) REPORT_SIZE (read_timeout_ms (MxString ''read'' # rest))
       = (r, bytes)"
    by (cases "hid_read_timeout hid (Some d) REPORT_SIZE
                 (read_timeout_ms (MxString ''read'' # rest))")
  with h have "\<not> 0 < r"
    by simp
  then show ?thesis
    by (simp add: read_command c_str_literals Let_def poll_result [OF a r])
qed

theorem read_failure_is_empty_witness:
  "fst (mexFunction (sample_transport 0 (Some 7) (0, []) 0) 1 [MxString ''read''] initial_state)
     = Inr (Some (MxDoubleMatrix 0 0 []))
   \<and> fst (mexFunction (sample_transport 0 (Some 7) (- 1, []) 0) 1 [MxString ''read'']
            initial_state)
     = Inr (Some (MxDoubleMatrix 0 0 []))
   \<and> fst (mexFunction (sample_transport 0 None (5, [1, 2, 3, 4, 5]) 0) 1 [MxString ''read'']
            initial_state)
     = Inr (Some (MxDoubleMatrix 0 0 []))"
proof -
  have a: "available (sample_transport 0 (Some 7) rd 0) initial_state 7" for rd
    by (simp add: available_def sample_transport_def initial_state_def)
  have u: "unavailable (sample_transport 0 None (5, [1, 2, 3, 4, 5]) 0) initial_state"
    by (simp add: unavailable_def sample_transport_def initial_state_def)
  have t: "fst (hid_read_timeout (sample_transport 0 (Some 7) (0, []) 0) (Some 7) REPORT_SIZE
                  (read_timeout_ms (MxString ''read'' # []))) \<le> 0"
    by (simp add: sample_transport_def)
  have e: "fst (hid_read_timeout (sample_transport 0 (Some 7) (- 1, []) 0) (Some 7) REPORT_SIZE
                  (read_timeout_ms (MxString ''read'' # []))) \<le> 0"
    by (simp add: sample_transport_def)
  show ?thesis
    using read_failure_is_empty [OF disjI2 [OF conjI [OF a t]], where nlhs = 1]
      read_failure_is_empty [OF disjI2 [OF conjI [OF a e]], where nlhs = 1]
      read_failure_is_empty [OF disjI1 [OF u], where nlhs = 1 and rest = "[]"]
    by simp
qed

subsection \<open>Device information\<close>

text \<open>
  The struct \<^verbatim>\<open>getDeviceInfo\<close> returns, field by field. A descriptor field is set, to its
  fixed string, exactly when the query returns 0, which is hidapi's success value.
\<close>

lemma info_available:
  assumes "available hid s d"
  shows "fst (getDeviceInfo hid s) =
           MxStruct
             [(''connected'', Some (MxLogicalScalar True)),
              (''vendor_id'', Some (MxDoubleScalar 0x1313)),
              (''product_id'', Some (MxDoubleScalar 0x9000)),
              (''manufacturer'',
                 if hid_get_manufacturer_string hid (Some d) = 0
                 then Some (MxString ''Thorlabs'') else None),
              (''product'',
                 if hid_get_product_string hid (Some d) = 0
                 then Some (MxString ''MJC3 Joystick'') else None),
              (''serial_number'',
                 if hid_get_serial_number_string hid (Some d) = 0
                 then Some (MxString ''Unknown'') else None)]"
proof -
  obtain s1 where s1:
    "(if g_device s = None then initializeDevice hid s else (True, s)) = (True, s1)"
    "g_device s1 = Some d"
    using ensure_open [OF assms] by blast
  show ?thesis
    using s1
    by (simp add: getDeviceInfo_def Let_def emit_def mxCreateStructMatrix_def mxSetField_def
        field_names_def MJC3_VID_def MJC3_PID_def)
qed

lemma info_unavailable:
  assumes "unavailable hid s"
  shows "fst (getDeviceInfo hid s) =
           MxStruct
             [(''connected'', Some (MxLogicalScalar False)),
              (''vendor_id'', None), (''product_id'', None),
              (''manufacturer'', None), (''product'', None), (''serial_number'', None)]"
  using ensure_open_fails [OF assms]
  by (cases "initializeDevice hid s")
    (simp add: getDeviceInfo_def Let_def mxCreateStructMatrix_def mxSetField_def field_names_def)

lemma info_command:
  assumes "c_str cs = ''info''"
  shows "fst (mexFunction hid nlhs (MxString cs # rest) s) =
           Inr (Some (fst (getDeviceInfo hid (emit MexAtExit s))))"
  using assms
  by (simp add: mexFunction_def is_command Let_def split: prod.splits del: mxGetString.simps)

text \<open>
  C3 is not what the program does. With the device open and the three descriptor queries
  failing (hidapi returns -1), the info command returns connected = true and the two ids,
  and leaves manufacturer, product and serial_number unset: the fixed strings are stored
  under the test \<^verbatim>\<open>== 0\<close>, that is on success, although the comment on that line reads
  "Default if read fails".
\<close>

theorem info_failed_queries_leave_fields_unset:
  "fst (mexFunction (sample_transport 0 (Some 7) (0, []) (- 1)) 1 [MxString ''info'']
          initial_state) =
     Inr (Some (MxStruct
       [(''connected'', Some (MxLogicalScalar True)),
        (''vendor_id'', Some (MxDoubleScalar 0x1313)),
        (''product_id'', Some (MxDoubleScalar 0x9000)),
        (''manufacturer'', None), (''product'', None), (''serial_number'', None)]))"
proof -
  have a: "available (sample_transport 0 (Some 7) (0, []) (- 1)) (emit MexAtExit initial_state) 7"
    by (simp add: available_def sample_transport_def initial_state_def emit_def)
  show ?thesis
    by (simp add: info_command c_str_literals info_available [OF a])
      (simp add: sample_transport_def)
qed

text \<open>
  C4, as the program has it. When the device is available, the record of the info command
  has connected = true, vendor_id = 0x1313 and product_id = 0x9000. When the device is
  unavailable, the record has connected = false and every other field, the two ids
  included, unset.
\<close>

theorem info_ids:
  "(available hid s d \<longrightarrow>
      (\<exists>st. fst (mexFunction hid nlhs (MxString ''info'' # rest) s) = Inr (Some st)
         \<and> mxGetField st ''connected'' = Some (MxLogicalScalar True)
         \<and> mxGetField st ''vendor_id'' = Some (MxDoubleScalar 0x1313)
         \<and> mxGetField st ''product_id'' = Some (MxDoubleScalar 0x9000)))
   \<and> (unavailable hid s \<longrightarrow>
        fst (mexFunction hid nlhs (MxString ''info'' # rest) s) =
          Inr (Some (MxStruct
            [(''connected'', Some (MxLogicalScalar False)),
             (''vendor_id'', None), (''product_id'', None),
             (''manufacturer'', None), (''product'', None), (''serial_number'', None)])))"
proof (intro conjI impI)
  assume "available hid s d"
  then have a: "available hid (emit MexAtExit s) d"
    by (simp add: available_emit)
  show "\<exists>st. fst (mexFunction hid nlhs (MxString ''info'' # rest) s) = Inr (Some st)
         \<and> mxGetField st ''connected'' = Some (MxLogicalScalar True)
         \<and> mxGetField st ''vendor_id'' = Some (MxDoubleScalar 0x1313)
         \<and> mxGetField st ''product_id'' = Some (MxDoubleScalar 0x9000)"
    by (simp add: info_command c_str_literals info_available [OF a])
next
  assume "unavailable hid s"
  then have u: "unavailable hid (emit MexAtExit s)"
    by (simp add: unavailable_emit)
  show "fst (mexFunction hid nlhs (MxString ''info'' # rest) s) =
          Inr (Some (MxStruct
            [(''connected'', Some (MxLogicalScalar False)),
             (''vendor_id'', None), (''product_id'', None),
             (''manufacturer'', None), (''product'', None), (''serial_number'', None)]))"
    by (simp add: info_command c_str_literals info_unavailable [OF u])
qed

theorem info_ids_witness:
  "(\<exists>st. fst (mexFunction (sample_transport 0 (Some 7) (0, []) 0) 1 [MxString ''info'']
                initial_state) = Inr (Some st)
         \<and> mxGetField st ''connected'' = Some (MxLogicalScalar True)
         \<and> mxGetField st ''vendor_id'' = Some (MxDoubleScalar 0x1313)
         \<and> mxGetField st ''product_id'' = Some (MxDoubleScalar 0x9000))
   \<and> fst (mexFunction (sample_transport (- 1) (Some 7) (0, []) 0) 1 [MxString ''info'']
            initial_state) =
       Inr (Some (MxStruct
            [(''connected'', Some (MxLogicalScalar False)),
             (''vendor_id'', None), (''product_id'', None),
             (''manufacturer'', None), (''product'', None), (''serial_number'', None)]))"
proof -
  have a: "available (sample_transport 0 (Some 7) (0, []) 0) initial_state 7"
    by (simp add: available_def sample_transport_def initial_state_def)
  have u: "unavailable (sample_transport (- 1) (Some 7) (0, []) 0) initial_state"
    by (simp add: unavailable_def sample_transport_def initial_state_def)
  show ?thesis
    using info_ids [THEN conjunct1, rule_format, OF a, where nlhs = 1 and rest = "[]"]
      info_ids [THEN conjunct2, rule_format, OF u, where nlhs = 1 and rest = "[]"]
    by blast
qed

text \<open>
  C4 as the specification states it fails: when the device cannot be opened, the record
  holds no vendor_id and no product_id.
\<close>

theorem info_without_device_has_no_ids:
  "fst (mexFunction (sample_transport 0 None (0, []) 0) 1 [MxString ''info''] initial_state) =
     Inr (Some (MxStruct
       [(''connected'', Some (MxLogicalScalar False)),
        (''vendor_id'', None), (''product_id'', None),
        (''manufacturer'', None), (''product'', None), (''serial_number'', None)]))
   \<and> mxGetField (MxStruct
       [(''connected'', Some (MxLogicalScalar False)),
        (''vendor_id'', None), (''product_id'', None),
        (''manufacturer'', None), (''product'', None), (''serial_number'', None)]) ''vendor_id''
      = None"
  by (simp add: sample_transport_def initial_state_def mexFunction_def getDeviceInfo_def
      initializeDevice_def emit_def mxCreateStructMatrix_def mxSetField_def field_names_def
      NUL_def Let_def)

subsection \<open>Closing\<close>

lemma close_command:
  assumes "c_str cs = ''close''"
  shows "mexFunction hid nlhs (MxString cs # rest) s =
           (Inr (if nlhs > 0 then Some (MxLogicalScalar True) else None),
            cleanupDevice (emit MexAtExit s))"
  using assms
  by (simp add: mexFunction_def is_command Let_def del: mxGetString.simps)

lemma cleanupDevice_closed: "closed (cleanupDevice s)"
  by (simp add: cleanupDevice_def closed_def emit_def Let_def split: option.splits)

lemma cleanupDevice_of_closed: "closed s \<Longrightarrow> cleanupDevice s = s"
  by (simp add: cleanupDevice_def closed_def)

lemma closed_emit: "closed (emit c s) = closed s"
  by (simp add: closed_def emit_def)

lemma effects_emit: "effects (emit c s) = effects s @ [c]"
  by (simp add: emit_def)

text \<open>
  C6. The close command succeeds from every session state and leaves the session closed
  (no handle, not initialised). A second close right after it succeeds too, leaves the
  session closed and makes no transport call; \<^verbatim>\<open>cleanupDevice\<close> is idempotent.
\<close>

theorem close_total_idempotent:
  "fst (mexFunction hid nlhs (MxString ''close'' # rest) s)
     = Inr (if nlhs > 0 then Some (MxLogicalScalar True) else None)
   \<and> closed (snd (mexFunction hid nlhs (MxString ''close'' # rest) s))
   \<and> fst (mexFunction hid' nlhs' (MxString ''close'' # rest')
            (snd (mexFunction hid nlhs (MxString ''close'' # rest) s)))
       = Inr (if nlhs' > 0 then Some (MxLogicalScalar True) else None)
   \<and> closed (snd (mexFunction hid' nlhs' (MxString ''close'' # rest')
                (snd (mexFunction hid nlhs (MxString ''close'' # rest) s))))
   \<and> effects (snd (mexFunction hid' nlhs' (MxString ''close'' # rest')
                (snd (mexFunction hid nlhs (MxString ''close'' # rest) s))))
       = effects (snd (mexFunction hid nlhs (MxString ''close'' # rest) s)) @ [MexAtExit]
   \<and> cleanupDevice (cleanupDevice s) = cleanupDevice s"
proof -
  have c1: "closed (cleanupDevice (emit MexAtExit s))"
    by (rule cleanupDevice_closed)
  then have c2: "closed (emit MexAtExit (cleanupDevice (emit MexAtExit s)))"
    by (simp add: closed_emit)
  have e: "cleanupDevice (emit MexAtExit (cleanupDevice (emit MexAtExit s)))
             = emit MexAtExit (cleanupDevice (emit MexAtExit s))"
    using c2 by (rule cleanupDevice_of_closed)
  have i: "cleanupDevice (cleanupDevice s) = cleanupDevice s"
    using cleanupDevice_closed by (rule cleanupDevice_of_closed)
  show ?thesis
    by (simp add: close_command c_str_literals c1 c2 e i effects_emit)
qed

theorem close_total_idempotent_witness:
  "fst (mexFunction (sample_transport 0 (Some 7) (0, []) 0) 1 [MxString ''close'']
          \<lparr>g_device = Some 7, g_initialized = True, effects = []\<rparr>)
     = Inr (Some (MxLogicalScalar True))
   \<and> closed (snd (mexFunction (sample_transport 0 (Some 7) (0, []) 0) 1 [MxString ''close'']
          \<lparr>g_device = Some 7, g_initialized = True, effects = []\<rparr>))
   \<and> fst (mexFunction (sample_transport 0 (Some 7) (0, []) 0) 0 [MxString ''close'']
            (snd (mexFunction (sample_transport 0 (Some 7) (0, []) 0) 1 [MxString ''close'']
                    \<lparr>g_device = Some 7, g_initialized = True, effects = []\<rparr>)))
       = Inr None"
  using close_total_idempotent [of "sample_transport 0 (Some 7) (0, []) 0" 1 "[]"
      "\<lparr>g_device = Some 7, g_initialized = True, effects = []\<rparr>"
      "sample_transport 0 (Some 7) (0, []) 0" 0 "[]"]
  by simp

subsection \<open>Dispatch\<close>

lemma missing_command:
  "fst (mexFunction hid nlhs [] s) =
     Inl (MexError ''MJC3:InvalidInput'' ''At least one input argument required'')"
  by (simp add: mexFunction_def Let_def)

lemma non_string_command:
  assumes "\<not> mxIsChar a"
  shows "fst (mexFunction hid nlhs (a # rest) s) =
           Inl (MexError ''MJC3:InvalidInput'' ''First argument must be a command string'')"
  using assms by (simp add: mexFunction_def Let_def)

lemma unknown_command:
  assumes "c_str cs \<notin> commands"
  shows "\<exists>msg. fst (mexFunction hid nlhs (MxString cs # rest) s) =
           Inl (MexError ''MJC3:InvalidCommand'' msg)"
  using assms
  by (simp add: mexFunction_def commands_def is_command Let_def del: mxGetString.simps)

lemma known_command:
  assumes "c_str cs \<in> commands"
  shows "\<not> isl (fst (mexFunction hid nlhs (MxString cs # rest) s))"
  using assms
  by (auto simp: mexFunction_def commands_def is_command Let_def split: prod.splits
      simp del: mxGetString.simps)

text \<open>
  C7, as the program has it. An invocation without arguments and one whose first argument
  is not a char array end with the error MJC3:InvalidInput. An invocation whose first
  argument is a char array ends with the error MJC3:InvalidCommand when the text of that
  array before its first NUL character is not one of read, info, test and close; in
  particular every command string that holds no NUL and is not one of the four is
  rejected. When that text is one of the four, no error is raised.
\<close>

theorem unknown_command_rejected:
  "fst (mexFunction hid nlhs [] s) =
     Inl (MexError ''MJC3:InvalidInput'' ''At least one input argument required'')
   \<and> (\<not> mxIsChar a \<longrightarrow>
        fst (mexFunction hid nlhs (a # rest) s) =
          Inl (MexError ''MJC3:InvalidInput'' ''First argument must be a command string''))
   \<and> (c_str cs \<notin> commands \<longrightarrow>
        (\<exists>msg. fst (mexFunction hid nlhs (MxString cs # rest) s) =
           Inl (MexError ''MJC3:InvalidCommand'' msg)))
   \<and> (NUL \<notin> set cs \<and> cs \<notin> commands \<longrightarrow>
        (\<exists>msg. fst (mexFunction hid nlhs (MxString cs # rest) s) =
           Inl (MexError ''MJC3:InvalidCommand'' msg)))
   \<and> (c_str cs \<in> commands \<longrightarrow>
        \<not> isl (fst (mexFunction hid nlhs (MxString cs # rest) s)))"
proof (intro conjI impI)
  show "fst (mexFunction hid nlhs [] s) =
          Inl (MexError ''MJC3:InvalidInput'' ''At least one input argument required'')"
    by (rule missing_command)
next
  assume "\<not> mxIsChar a"
  then show "fst (mexFunction hid nlhs (a # rest) s) =
          Inl (MexError ''MJC3:InvalidInput'' ''First argument must be a command string'')"
    by (rule non_string_command)
next
  assume "c_str cs \<notin> commands"
  then show "\<exists>msg. fst (mexFunction hid nlhs (MxString cs # rest) s) =
           Inl (MexError ''MJC3:InvalidCommand'' msg)"
    by (rule unknown_command)
next
  assume "NUL \<notin> set cs \<and> cs \<notin> commands"
  then have "c_str cs \<notin> commands"
    by (simp add: c_str_no_NUL)
  then show "\<exists>msg. fst (mexFunction hid nlhs (MxString cs # rest) s) =
           Inl (MexError ''MJC3:InvalidCommand'' msg)"
    by (rule unknown_command)
next
  assume "c_str cs \<in> commands"
  then show "\<not> isl (fst (mexFunction hid nlhs (MxString cs # rest) s))"
    by (rule known_command)
qed

theorem unknown_command_rejected_witness:
  "fst (mexFunction (sample_transport 0 (Some 7) (0, []) 0) 1 [MxLogicalScalar True]
          initial_state) =
     Inl (MexError ''MJC3:InvalidInput'' ''First argument must be a command string'')
   \<and> (\<exists>msg. fst (mexFunction (sample_transport 0 (Some 7) (0, []) 0) 1 [MxString ''open'']
                 initial_state) =
          Inl (MexError ''MJC3:InvalidCommand'' msg))
   \<and> \<not> isl (fst (mexFunction (sample_transport 0 (Some 7) (0, []) 0) 1 [MxString ''test'']
                 initial_state))"
proof -
  have n: "\<not> mxIsChar (MxLogicalScalar True)"
    by simp
  have u: "NUL \<notin> set ''open'' \<and> ''open'' \<notin> commands"
    by (simp add: NUL_def commands_def)
  have k: "c_str ''test'' \<in> commands"
    by (simp add: c_str_literals commands_def)
  note w = unknown_command_rejected [where hid = "sample_transport 0 (Some 7) (0, []) 0"
      and nlhs = 1 and s = initial_state and rest = "[]"]
  show ?thesis
    using w [where a = "MxLogicalScalar True", THEN conjunct2, THEN conjunct1, rule_format, OF n]
      w [where cs = "''open''", THEN conjunct2, THEN conjunct2, THEN conjunct2, THEN conjunct1,
         rule_format, OF u]
      w [where cs = "''test''", THEN conjunct2, THEN conjunct2, THEN conjunct2, THEN conjunct2,
         rule_format, OF k]
    by blast
qed

text \<open>
  C7 as the specification states it fails: the six characters r, e, a, d, NUL, x are not
  one of the four command strings, and the dispatcher runs the read command on them (here
  the read times out and the caller gets the silent empty result). \<^verbatim>\<open>strcmp\<close> compares
  C strings, which end at the first NUL.
\<close>

theorem embedded_nul_command_is_accepted:
  "[CHR ''r'', CHR ''e'', CHR ''a'', CHR ''d'', NUL, CHR ''x''] \<notin> commands
   \<and> fst (mexFunction (sample_transport 0 (Some 7) (0, []) 0) 1
            [MxString [CHR ''r'', CHR ''e'', CHR ''a'', CHR ''d'', NUL, CHR ''x'']] initial_state)
       = Inr (Some (MxDoubleMatrix 0 0 []))"
  by (simp add: commands_def NUL_def sample_transport_def initial_state_def mexFunction_def
      readJoystickData_def initializeDevice_def emit_def read_timeout_ms_def store_bytes_def
      REPORT_SIZE_def Let_def)

subsection \<open>The session invariant\<close>

lemma session_inv_emit: "session_inv (emit c s) = session_inv s"
  by (simp add: session_inv_def emit_def)

lemma closed_session_inv: "closed s \<Longrightarrow> session_inv s"
  by (simp add: closed_def session_inv_def)

lemma initializeDevice_inv:
  assumes "session_inv s"
  shows "session_inv (snd (initializeDevice hid s))"
  using assms
  by (auto simp: initializeDevice_def session_inv_def emit_def Let_def split: option.splits)

lemma initializeDevice_success:
  assumes "fst (initializeDevice hid s)"
  shows "g_initialized (snd (initializeDevice hid s)) \<and> g_device (snd (initializeDevice hid s)) \<noteq> None"
  using assms
  by (auto simp: initializeDevice_def emit_def Let_def split: option.splits if_splits)

lemma initializeDevice_failure:
  assumes "session_inv s" and "\<not> fst (initializeDevice hid s)"
  shows "closed (snd (initializeDevice hid s))"
  using assms
  by (auto simp: initializeDevice_def session_inv_def closed_def emit_def Let_def
      split: option.splits if_splits)

lemma readJoystickData_inv:
  assumes "session_inv s"
  shows "session_inv (snd (snd (readJoystickData hid buffer t s)))"
proof (cases "g_device s")
  case None
  obtain ok s1 where i: "initializeDevice hid s = (ok, s1)"
    by (cases "initializeDevice hid s")
  then have "session_inv s1"
    using initializeDevice_inv [OF assms, of hid] by simp
  then show ?thesis
    using None i
    by (simp add: readJoystickData_def Let_def session_inv_emit split: prod.splits)
next
  case (Some d)
  then show ?thesis
    using assms
    by (simp add: readJoystickData_def Let_def session_inv_emit split: prod.splits)
qed

lemma getDeviceInfo_inv:
  assumes "session_inv s"
  shows "session_inv (snd (getDeviceInfo hid s))"
proof (cases "g_device s")
  case None
  obtain ok s1 where i: "initializeDevice hid s = (ok, s1)"
    by (cases "initializeDevice hid s")
  then have "session_inv s1"
    using initializeDevice_inv [OF assms, of hid] by simp
  then show ?thesis
    using None i
    by (simp add: getDeviceInfo_def Let_def session_inv_emit)
next
  case (Some d)
  then show ?thesis
    using assms
    by (simp add: getDeviceInfo_def Let_def session_inv_emit)
qed

lemma mexFunction_inv:
  assumes "session_inv s"
  shows "session_inv (snd (mexFunction hid nlhs prhs s))"
proof -
  have s0: "session_inv (emit MexAtExit s)"
    using assms by (simp add: session_inv_emit)
  have r: "session_inv (snd (snd (readJoystickData hid b t (emit MexAtExit s))))" for b t
    using s0 by (rule readJoystickData_inv)
  have i: "session_inv (snd (getDeviceInfo hid (emit MexAtExit s)))"
    using s0 by (rule getDeviceInfo_inv)
  have c: "session_inv (cleanupDevice (emit MexAtExit s))"
    by (rule closed_session_inv [OF cleanupDevice_closed])
  show ?thesis
    using s0 r [of "replicate REPORT_SIZE 0" "read_timeout_ms prhs"] i c
    by (auto simp: mexFunction_def Let_def split: prod.splits simp del: mxGetString.simps)
qed

lemma invocations_inv:
  assumes "session_inv s"
  shows "session_inv (invocations calls s)"
  using assms
proof (induction calls arbitrary: s)
  case Nil
  then show ?case by simp
next
  case (Cons c calls)
  obtain hid nlhs prhs where c: "c = (hid, nlhs, prhs)"
    by (cases c)
  have "session_inv (snd (mexFunction hid nlhs prhs s))"
    using Cons.prems by (rule mexFunction_inv)
  then show ?case
    by (simp add: c Cons.IH)
qed

text \<open>
  C8. \<^verbatim>\<open>g_initialized\<close> is true exactly when \<^verbatim>\<open>g_device\<close> is non-null. This holds of the
  initial globals and is kept by \<^verbatim>\<open>initializeDevice\<close>, \<^verbatim>\<open>cleanupDevice\<close>,
  \<^verbatim>\<open>readJoystickData\<close>, \<^verbatim>\<open>getDeviceInfo\<close> and every invocation of \<^verbatim>\<open>mexFunction\<close>, so it
  holds after any sequence of invocations. A successful open sets both globals, a failed
  open from a state with the invariant leaves both cleared, and close clears both.
\<close>

theorem session_invariant:
  "session_inv initial_state
   \<and> (session_inv s \<longrightarrow> session_inv (snd (initializeDevice hid s)))
   \<and> (fst (initializeDevice hid s) \<longrightarrow>
        g_initialized (snd (initializeDevice hid s))
        \<and> g_device (snd (initializeDevice hid s)) \<noteq> None)
   \<and> (session_inv s \<and> \<not> fst (initializeDevice hid s) \<longrightarrow>
        \<not> g_initialized (snd (initializeDevice hid s))
        \<and> g_device (snd (initializeDevice hid s)) = None)
   \<and> \<not> g_initialized (cleanupDevice s) \<and> g_device (cleanupDevice s) = None
   \<and> (session_inv s \<longrightarrow> session_inv (snd (snd (readJoystickData hid buffer t s))))
   \<and> (session_inv s \<longrightarrow> session_inv (snd (getDeviceInfo hid s)))
   \<and> (session_inv s \<longrightarrow> session_inv (snd (mexFunction hid nlhs prhs s)))
   \<and> session_inv (invocations calls initial_state)"
proof -
  have init: "session_inv initial_state"
    by (simp add: session_inv_def initial_state_def)
  have fail: "\<not> g_initialized (snd (initializeDevice hid s))
              \<and> g_device (snd (initializeDevice hid s)) = None"
    if "session_inv s \<and> \<not> fst (initializeDevice hid s)"
    using initializeDevice_failure [of s hid] that by (simp add: closed_def)
  have clean: "\<not> g_initialized (cleanupDevice s) \<and> g_device (cleanupDevice s) = None"
    using cleanupDevice_closed [of s] by (simp add: closed_def)
  show ?thesis
    using init fail clean initializeDevice_inv initializeDevice_success readJoystickData_inv
      getDeviceInfo_inv mexFunction_inv invocations_inv [OF init]
    by blast
qed

theorem session_invariant_witness:
  "session_inv (snd (initializeDevice (sample_transport 0 (Some 7) (0, []) 0) initial_state))
   \<and> g_initialized (snd (initializeDevice (sample_transport 0 (Some 7) (0, []) 0) initial_state))
   \<and> g_device (snd (initializeDevice (sample_transport 0 (Some 7) (0, []) 0) initial_state))
       \<noteq> None
   \<and> \<not> g_initialized (snd (initializeDevice (sample_transport 0 None (0, []) 0) initial_state))
   \<and> g_device (snd (initializeDevice (sample_transport 0 None (0, []) 0) initial_state)) = None
   \<and> session_inv (snd (mexFunction (sample_transport 0 (Some 7) (0, []) 0) 1 [MxString ''read'']
                         initial_state))"
proof -
  have i: "session_inv initial_state"
    by (simp add: session_inv_def initial_state_def)
  have ok: "fst (initializeDevice (sample_transport 0 (Some 7) (0, []) 0) initial_state)"
    by (simp add: initializeDevice_def sample_transport_def initial_state_def emit_def)
  have ko: "\<not> fst (initializeDevice (sample_transport 0 None (0, []) 0) initial_state)"
    by (simp add: initializeDevice_def sample_transport_def initial_state_def emit_def)
  show ?thesis
    using i ok ko
      session_invariant [where s = initial_state and hid = "sample_transport 0 (Some 7) (0, []) 0"
        and nlhs = 1 and prhs = "[MxString ''read'']"]
      session_invariant [where s = initial_state and hid = "sample_transport 0 None (0, []) 0"]
    by blast
qed

subsection \<open>A failed read and the handle\<close>

lemma poll_open_effects:
  assumes "g_device s = Some d"
  shows "\<exists>es. effects (snd (snd (readJoystickData hid buffer t s))) =
           effects s @ HidReadTimeout (Some d) REPORT_SIZE t # es"
  using assms
  by (auto simp: readJoystickData_def Let_def emit_def split: prod.splits)

lemma poll_error_state:
  assumes "available hid s d"
    and "hid_read_timeout hid (Some d) REPORT_SIZE t = (r, bytes)"
    and "r < 0"
  shows "g_device s = Some d \<longrightarrow>
           g_initialized (snd (snd (readJoystickData hid buffer t s))) = g_initialized s"
    and "\<exists>es. effects (snd (snd (readJoystickData hid buffer t s))) = effects s @ es
           \<and> HidClose d \<notin> set es \<and> HidExit \<notin> set es"
proof -
  obtain s1 es where s1:
    "(if g_device s = None then initializeDevice hid s else (True, s)) = (True, s1)"
    "g_device s1 = Some d" "g_device s = Some d \<longrightarrow> s1 = s"
    "effects s1 = effects s @ es" "HidClose d \<notin> set es" "HidExit \<notin> set es"
    using ensure_open [OF assms(1)] by blast
  show "g_device s = Some d \<longrightarrow>
          g_initialized (snd (snd (readJoystickData hid buffer t s))) = g_initialized s"
    using s1 assms(2,3) by (auto simp: readJoystickData_def Let_def emit_def)
  show "\<exists>es. effects (snd (snd (readJoystickData hid buffer t s))) = effects s @ es
          \<and> HidClose d \<notin> set es \<and> HidExit \<notin> set es"
    using s1 assms(2,3) by (auto simp: readJoystickData_def Let_def emit_def)
qed

text \<open>
  C9. When the transport read of a poll returns a negative result, the poll fails and the
  session keeps the handle it read from: \<^verbatim>\<open>g_device\<close> is still that handle, the open flag of
  an already open session is unchanged, and the poll called neither \<^verbatim>\<open>hid_close\<close> nor
  \<^verbatim>\<open>hid_exit\<close>. The next poll starts with a read on the same handle, without opening.
\<close>

theorem read_error_keeps_handle:
  assumes "available hid s d"
    and "hid_read_timeout hid (Some d) REPORT_SIZE t = (r, bytes)"
    and "r < 0"
  shows "\<not> fst (readJoystickData hid buffer t s)
         \<and> g_device (snd (snd (readJoystickData hid buffer t s))) = Some d
         \<and> (g_device s = Some d \<longrightarrow>
              g_initialized (snd (snd (readJoystickData hid buffer t s))) = g_initialized s)
         \<and> (\<exists>es. effects (snd (snd (readJoystickData hid buffer t s))) = effects s @ es
              \<and> HidClose d \<notin> set es \<and> HidExit \<notin> set es)
         \<and> (\<exists>es. effects (snd (snd (readJoystickData hid' buffer' t'
                                     (snd (snd (readJoystickData hid buffer t s)))))) =
                   effects (snd (snd (readJoystickData hid buffer t s)))
                   @ HidReadTimeout (Some d) REPORT_SIZE t' # es)"
proof -
  have d: "g_device (snd (snd (readJoystickData hid buffer t s))) = Some d"
    by (rule poll_result(3) [OF assms(1,2)])
  have f: "\<not> fst (readJoystickData hid buffer t s)"
    using poll_result(1) [OF assms(1,2), of buffer] assms(3) by simp
  show ?thesis
    using d f poll_error_state [OF assms, of buffer] poll_open_effects [OF d, of hid' buffer' t']
    by blast
qed

theorem read_error_keeps_handle_witness:
  "\<not> fst (readJoystickData (sample_transport 0 None (- 1, []) 0) (replicate REPORT_SIZE 0) 100
            \<lparr>g_device = Some 7, g_initialized = True, effects = []\<rparr>)
   \<and> g_device (snd (snd (readJoystickData (sample_transport 0 None (- 1, []) 0)
                           (replicate REPORT_SIZE 0) 100
                           \<lparr>g_device = Some 7, g_initialized = True, effects = []\<rparr>))) = Some 7
   \<and> g_initialized (snd (snd (readJoystickData (sample_transport 0 None (- 1, []) 0)
                           (replicate REPORT_SIZE 0) 100
                           \<lparr>g_device = Some 7, g_initialized = True, effects = []\<rparr>)))"
proof -
  have a: "available (sample_transport 0 None (- 1, []) 0)
             \<lparr>g_device = Some 7, g_initialized = True, effects = []\<rparr> 7"
    by (simp add: available_def)
  have r: "hid_read_timeout (sample_transport 0 None (- 1, []) 0) (Some 7) REPORT_SIZE 100
             = (- 1, [])"
    by (simp add: sample_transport_def)
  have n: "(- 1 :: int) < 0"
    by simp
  show ?thesis
    using read_error_keeps_handle [OF a r n, of "replicate REPORT_SIZE 0"]
    by simp
qed

subsection \<open>The timeout argument\<close>

lemma read_command_state:
  assumes "c_str cs = ''read''"
  shows "snd (mexFunction hid nlhs (MxString cs # rest) s) =
           snd (snd (readJoystickData hid (replicate REPORT_SIZE 0)
                       (read_timeout_ms (MxString cs # rest)) (emit MexAtExit s)))"
  using assms
  by (simp add: mexFunction_def is_read Let_def split: prod.splits del: mxGetString.simps)

text \<open>
  C10. A read whose second argument is present but not numeric raises no error and uses the
  timeout 100: the invocation has the result, the globals and the outside calls of the read
  without a second argument, and when the device is available the transport is read with
  timeout 100.
\<close>

theorem nonnumeric_timeout_defaults:
  assumes "\<not> mxIsNumeric a"
  shows "read_timeout_ms (MxString ''read'' # a # rest) = 100
         \<and> read_timeout_ms [MxString ''read''] = 100
         \<and> mexFunction hid nlhs (MxString ''read'' # a # rest) s
             = mexFunction hid nlhs [MxString ''read''] s
         \<and> \<not> isl (fst (mexFunction hid nlhs (MxString ''read'' # a # rest) s))
         \<and> (available hid s d \<longrightarrow>
              HidReadTimeout (Some d) REPORT_SIZE 100
                \<in> set (effects (snd (mexFunction hid nlhs (MxString ''read'' # a # rest) s))))"
proof -
  have t: "read_timeout_ms (MxString ''read'' # a # rest) = 100"
    using assms by (simp add: read_timeout_ms_def)
  have t0: "read_timeout_ms [MxString ''read''] = 100"
    by (simp add: read_timeout_ms_def)
  have e: "mexFunction hid nlhs (MxString ''read'' # a # rest) s
             = mexFunction hid nlhs [MxString ''read''] s"
    by (rule prod_eqI) (simp_all add: read_command read_command_state c_str_literals t t0)
  have n: "\<not> isl (fst (mexFunction hid nlhs (MxString ''read'' # a # rest) s))"
    by (simp add: read_command c_str_literals Let_def)
  have l: "HidReadTimeout (Some d) REPORT_SIZE 100
             \<in> set (effects (snd (mexFunction hid nlhs (MxString ''read'' # a # rest) s)))"
    if "available hid s d"
  proof -
    have "available hid (emit MexAtExit s) d"
      using that by (simp add: available_emit)
    then obtain s1 where s1:
      "(if g_device (emit MexAtExit s) = None then initializeDevice hid (emit MexAtExit s)
        else (True, emit MexAtExit s)) = (True, s1)"
      "g_device s1 = Some d"
      using ensure_open [of hid "emit MexAtExit s" d] by blast
    show ?thesis
      using s1
      by (auto simp: read_command_state c_str_literals t readJoystickData_def Let_def emit_def
          split: prod.splits)
  qed
  show ?thesis
    using t t0 e n l by blast
qed

theorem nonnumeric_timeout_defaults_witness:
  "read_timeout_ms [MxString ''read'', MxString ''fast''] = 100
   \<and> mexFunction (sample_transport 0 (Some 7) (0, []) 0) 1 [MxString ''read'', MxString ''fast'']
        initial_state
       = mexFunction (sample_transport 0 (Some 7) (0, []) 0) 1 [MxString ''read''] initial_state
   \<and> \<not> isl (fst (mexFunction (sample_transport 0 (Some 7) (0, []) 0) 1
                    [MxString ''read'', MxString ''fast''] initial_state))
   \<and> HidReadTimeout (Some 7) REPORT_SIZE 100
       \<in> set (effects (snd (mexFunction (sample_transport 0 (Some 7) (0, []) 0) 1
                              [MxString ''read'', MxString ''fast''] initial_state)))"
proof -
  have n: "\<not> mxIsNumeric (MxString ''fast'')"
    by simp
  have a: "available (sample_transport 0 (Some 7) (0, []) 0) initial_state 7"
    by (simp add: available_def sample_transport_def initial_state_def)
  show ?thesis
    using a nonnumeric_timeout_defaults [OF n, where rest = "[]" and s = initial_state
        and hid = "sample_transport 0 (Some 7) (0, []) 0" and nlhs = 1 and d = 7]
    by blast
qed

end
